theory Spec2Isabelle
  imports Main
begin

section \<open>The PDF-to-podcast front end (frontend/__main__.py)\<close>

text \<open>
  The front end is a page of widgets with Python handlers bound to their events.  Two
  groups of handlers carry behaviour: the configuration editor (load, undo, reset, save of
  \<^verbatim>\<open>/project/models.json\<close>) and the podcast request dispatcher
  (\<^verbatim>\<open>generate_podcast\<close>).  Python text is modelled as \<^typ>\<open>string\<close>; every
  character of that type can be encoded in UTF-8, so encoding errors do not arise.
\<close>

subsection \<open>Exceptions\<close>

text \<open>
  Each function has the exceptions it can raise as the left summand of its result.
  \<open>FileNotFoundError path\<close> is what \<^verbatim>\<open>open(path, "r")\<close> raises on a missing file.
  \<open>SyntaxError p e\<close> is the exception of \<^verbatim>\<open>save_chain_config\<close>: its message is the
  literal text \<open>p\<close> followed by the rendering of the caught exception \<open>e\<close>, which is also
  chained as its cause.  In the dispatcher, \<open>KeyError name\<close> is what
  \<^verbatim>\<open>os.environ[name]\<close> raises on a missing name, and \<open>Raised msg\<close> is an exception
  coming out of a collaborator.
\<close>

datatype os_error = FileNotFoundError string

datatype 'e syntax_error = SyntaxError string 'e

datatype dispatch_error = KeyError string | Raised string

subsection \<open>Files\<close>

text \<open>
  The file system maps a path to the text stored under it (the UTF-8 decoding of its
  bytes), and keeps a log of the \<^verbatim>\<open>open\<close> calls made, oldest first.
\<close>

datatype io = Open_r string | Open_w string

record filesystem =
  files :: "string \<rightharpoonup> string"
  io_log :: "io list"

text \<open>
  A file opened in text mode with the default \<^verbatim>\<open>newline=None\<close> is read with universal
  newlines: a carriage return followed by a line feed, and a carriage return alone, are
  each delivered as one line feed.
\<close>

fun universal_newlines :: "string \<Rightarrow> string" where
  "universal_newlines [] = []"
| "universal_newlines [c] = [if c = CHR 0x0D then CHR 0x0A else c]"
| "universal_newlines (c # d # cs) =
     (if c = CHR 0x0D
      then (if d = CHR 0x0A then CHR 0x0A # universal_newlines cs
            else CHR 0x0A # universal_newlines (d # cs))
      else c # universal_newlines (d # cs))"

text \<open>
  \<^verbatim>\<open>with open(path, "r", encoding="UTF-8") as f: return f.read()\<close>
\<close>

definition read_text :: "string \<Rightarrow> filesystem \<Rightarrow> (os_error + string) \<times> filesystem" where
  "read_text path fs =
     (let fs' = fs\<lparr>io_log := io_log fs @ [Open_r path]\<rparr>
      in case files fs path of
           None \<Rightarrow> (Inl (FileNotFoundError path), fs')
         | Some stored \<Rightarrow> (Inr (universal_newlines stored), fs'))"

text \<open>
  \<^verbatim>\<open>with open(path, "w", encoding="UTF-8") as f: f.write(txt)\<close>: opening creates or
  truncates the file, writing appends the text.  On a POSIX system (the paths of the
  program are POSIX paths) text mode writes every character as it is.  The path is taken
  to be writable.
\<close>

definition open_w :: "string \<Rightarrow> filesystem \<Rightarrow> filesystem" where
  "open_w path fs = fs\<lparr>files := (files fs)(path \<mapsto> []), io_log := io_log fs @ [Open_w path]\<rparr>"

definition write_str :: "string \<Rightarrow> string \<Rightarrow> filesystem \<Rightarrow> filesystem" where
  "write_str path txt fs =
     fs\<lparr>files := (files fs)(path \<mapsto> (case files fs path of None \<Rightarrow> txt | Some old \<Rightarrow> old @ txt))\<rparr>"

definition write_text :: "string \<Rightarrow> string \<Rightarrow> filesystem \<Rightarrow> filesystem" where
  "write_text path txt fs = write_str path txt (open_w path fs)"

subsection \<open>The JSON decoder of the standard library\<close>

text \<open>
  \<^verbatim>\<open>json.loads\<close> belongs to Python, not to the program, and the handlers below take
  the decoder as a parameter \<open>loads\<close>: \<open>Inl e\<close> when it raises \<open>e\<close>, \<open>Inr v\<close> when it returns
  \<open>v\<close>.  The recogniser \<open>json_loads\<close> follows the decoder of the standard library
  (\<^verbatim>\<open>json/decoder.py\<close>, \<^verbatim>\<open>json/scanner.py\<close>) on what it accepts, so that the
  handlers can be run on concrete texts; the decoded value, which the program discards,
  and the position and message of the error are left out.  Each of the three mutually
  recursive scanners returns the input that remains after what it consumed.  The first
  argument bounds the number of nested calls; \<open>json_loads\<close> starts with twice the length of
  the text, and every call consumes a character.
\<close>

datatype json_error = JSONDecodeError

definition is_ws :: "char \<Rightarrow> bool" where
  "is_ws c \<longleftrightarrow> c = CHR '' '' \<or> c = CHR 0x09 \<or> c = CHR 0x0A \<or> c = CHR 0x0D"

definition skip_ws :: "string \<Rightarrow> string" where
  "skip_ws s = dropWhile is_ws s"

definition is_digit :: "char \<Rightarrow> bool" where
  "is_digit c \<longleftrightarrow> List.member ''0123456789'' c"

definition is_hexdigit :: "char \<Rightarrow> bool" where
  "is_hexdigit c \<longleftrightarrow> List.member ''0123456789abcdefABCDEF'' c"

text \<open>
  \<^verbatim>\<open>NUMBER_RE = (-?(?:0|[1-9][0-9]*))(\.[0-9]+)?([eE][-+]?[0-9]+)?\<close>, matched at the
  start of the input.
\<close>

definition match_number :: "string \<Rightarrow> string option" where
  "match_number s =
     (let s1 = (case s of [] \<Rightarrow> s | c # cs \<Rightarrow> if c = CHR ''-'' then cs else s)
      in case s1 of
           [] \<Rightarrow> None
         | d # ds \<Rightarrow>
             if \<not> is_digit d then None
             else
               let s2 = (if d = CHR ''0'' then ds else dropWhile is_digit ds);
                   s3 = (case s2 of
                           c # e # cs \<Rightarrow>
                             if c = CHR ''.'' \<and> is_digit e then dropWhile is_digit cs else s2
                         | _ \<Rightarrow> s2);
                   s4 = (case s3 of
                           [] \<Rightarrow> s3
                         | c # cs \<Rightarrow>
                             if c = CHR ''e'' \<or> c = CHR ''E''
                             then (let t = (case cs of
                                              [] \<Rightarrow> cs
                                            | x # xs \<Rightarrow>
                                                if x = CHR ''+'' \<or> x = CHR ''-'' then xs else cs)
                                   in case t of
                                        [] \<Rightarrow> s3
                                      | y # ys \<Rightarrow>
                                          if is_digit y then dropWhile is_digit ys else s3)
                             else s3)
               in Some s4)"

text \<open>
  \<^verbatim>\<open>py_scanstring\<close> in strict mode, entered after the opening quote: a quote ends the
  string, a backslash starts an escape (one of \<^verbatim>\<open>"\/bfnrt\<close>, or \<^verbatim>\<open>u\<close> and four
  hexadecimal digits), a control character is refused.
\<close>

fun scanstring :: "string \<Rightarrow> string option" where
  "scanstring [] = None"
| "scanstring (c # cs) =
     (if c = CHR 0x22 then Some cs
      else if c = CHR 0x5C then
        (case cs of
           [] \<Rightarrow> None
         | esc # es \<Rightarrow>
             if esc = CHR ''u''
             then (if 4 \<le> length es \<and> list_all is_hexdigit (take 4 es)
                   then scanstring (drop 4 es) else None)
             else if List.member (CHR 0x22 # CHR 0x5C # ''/bfnrt'') esc then scanstring es
             else None)
      else if of_char c < (0x20 :: nat) then None
      else scanstring cs)"

fun scan_once :: "nat \<Rightarrow> string \<Rightarrow> string option"
  and object_pairs :: "nat \<Rightarrow> string \<Rightarrow> string option"
  and array_items :: "nat \<Rightarrow> string \<Rightarrow> string option"
where
  "scan_once 0 s = None"
| "scan_once (Suc n) s =
     (case s of
        [] \<Rightarrow> None
      | c # cs \<Rightarrow>
          if c = CHR 0x22 then scanstring cs
          else if c = CHR ''{'' then
            (case skip_ws cs of
               [] \<Rightarrow> None
             | k # ks \<Rightarrow>
                 if k = CHR ''}'' then Some ks
                 else if k = CHR 0x22 then object_pairs n ks
                 else None)
          else if c = CHR ''['' then
            (case skip_ws cs of
               [] \<Rightarrow> None
             | k # ks \<Rightarrow> if k = CHR '']'' then Some ks else array_items n (k # ks))
          else if take 4 s = ''null'' then Some (drop 4 s)
          else if take 4 s = ''true'' then Some (drop 4 s)
          else if take 5 s = ''false'' then Some (drop 5 s)
          else
            (case match_number s of
               Some rest \<Rightarrow> Some rest
             | None \<Rightarrow>
                 if take 3 s = ''NaN'' then Some (drop 3 s)
                 else if take 8 s = ''Infinity'' then Some (drop 8 s)
                 else if take 9 s = ''-Infinity'' then Some (drop 9 s)
                 else None))"
| "object_pairs 0 s = None"
| "object_pairs (Suc n) s =
     (case scanstring s of
        None \<Rightarrow> None
      | Some after_key \<Rightarrow>
          (case skip_ws after_key of
             [] \<Rightarrow> None
           | c # cs \<Rightarrow>
               if c \<noteq> CHR '':'' then None
               else
                 (case scan_once n (skip_ws cs) of
                    None \<Rightarrow> None
                  | Some after_value \<Rightarrow>
                      (case skip_ws after_value of
                         [] \<Rightarrow> None
                       | d # ds \<Rightarrow>
                           if d = CHR ''}'' then Some ds
                           else if d \<noteq> CHR '','' then None
                           else
                             (case skip_ws ds of
                                [] \<Rightarrow> None
                              | q # qs \<Rightarrow>
                                  if q = CHR 0x22 then object_pairs n qs else None)))))"
| "array_items 0 s = None"
| "array_items (Suc n) s =
     (case scan_once n s of
        None \<Rightarrow> None
      | Some after_value \<Rightarrow>
          (case skip_ws after_value of
             [] \<Rightarrow> None
           | d # ds \<Rightarrow>
               if d = CHR '']'' then Some ds
               else if d \<noteq> CHR '','' then None
               else array_items n (skip_ws ds)))"

text \<open>
  \<^verbatim>\<open>JSONDecoder.decode\<close>: white space, one value, white space, and nothing more.
\<close>

definition json_loads :: "string \<Rightarrow> json_error + unit" where
  "json_loads s =
     (case scan_once (2 * length s + 2) (skip_ws s) of
        None \<Rightarrow> Inl JSONDecodeError
      | Some rest \<Rightarrow> if skip_ws rest = [] then Inr () else Inl JSONDecodeError)"

subsection \<open>The configuration editor\<close>

definition models_json :: string where
  "models_json = ''/project/models.json''"

text \<open>
  \<^verbatim>\<open>def read_chain_config() -> str\<close>
\<close>

definition read_chain_config :: "filesystem \<Rightarrow> (os_error + string) \<times> filesystem" where
  "read_chain_config fs = read_text models_json fs"

text \<open>
  \<^verbatim>\<open>def save_chain_config(config_txt: str) -> None\<close>: any exception of the decoder is
  turned into a \<open>SyntaxError\<close> before the file is opened; the validation of the
  configuration's content is commented out in the source.
\<close>

definition save_chain_config ::
  "(string \<Rightarrow> 'e + 'j) \<Rightarrow> string \<Rightarrow> filesystem \<Rightarrow> ('e syntax_error + unit) \<times> filesystem" where
  "save_chain_config loads config_txt fs =
     (case loads config_txt of
        Inl err \<Rightarrow> (Inl (SyntaxError (''Error validating JSON syntax:'' @ [CHR 0x0A]) err), fs)
      | Inr config_data \<Rightarrow> (Inr (), write_text models_json config_txt fs))"

text \<open>
  What the module does when it is started: it reads the configuration once into the
  global \<^verbatim>\<open>_STARTING_CONFIG\<close>, builds the page, and launches it under the optional
  \<^verbatim>\<open>PROXY_PREFIX\<close> of the environment (\<^verbatim>\<open>os.environ.get\<close>, which never raises).
  The redirection of the standard output to the log file is left out.  The editor widget
  starts empty.
\<close>

record session =
  STARTING_CONFIG :: string
  root_path :: "string option"
  disk :: filesystem
  editor :: string

definition startup :: "(string \<rightharpoonup> string) \<Rightarrow> filesystem \<Rightarrow> os_error + session" where
  "startup environ fs0 =
     (case read_text models_json fs0 of
        (Inl e, fs1) \<Rightarrow> Inl e
      | (Inr config, fs1) \<Rightarrow>
          Inr \<lparr>STARTING_CONFIG = config, root_path = environ ''PROXY_PREFIX'',
               disk = fs1, editor = []\<rparr>)"

text \<open>
  \<^verbatim>\<open>def reset_demo() -> str: return _STARTING_CONFIG\<close>
\<close>

definition reset_demo :: "session \<Rightarrow> string" where
  "reset_demo s = STARTING_CONFIG s"

text \<open>
  The events of the editor tab and what is bound to each:
  \<^item> \<^verbatim>\<open>demo.load(read_chain_config, outputs=editor)\<close>
  \<^item> \<^verbatim>\<open>undo_btn.click(read_chain_config, outputs=editor)\<close>
  \<^item> \<^verbatim>\<open>@reset_btn.click(outputs=editor)\<close> on \<^verbatim>\<open>reset_demo\<close>
  \<^item> \<^verbatim>\<open>@save_btn.click(inputs=editor)\<close> on \<^verbatim>\<open>save_chain_config\<close>
  \<^item> \<^verbatim>\<open>editor.input(None, js=...)\<close>: the user's typing changes the text of the
    editor; no Python runs.

  A step gives the session after the event.  The text a handler returns goes to its
  output widget, the editor; a handler that raises leaves the editor as it was.  The
  editor is a \<^verbatim>\<open>gr.Code\<close> component, which shows a text it is given as output
  without the white space at its two ends (\<^verbatim>\<open>value.strip()\<close>), and hands its text to
  a handler as it is.
\<close>

datatype event = Page_load | Undo_click | Reset_click | Save_click | Editor_input string

text \<open>
  \<^verbatim>\<open>str.isspace\<close> on one character below 256, and \<^verbatim>\<open>str.strip()\<close>.
\<close>

definition str_isspace :: "char \<Rightarrow> bool" where
  "str_isspace c \<longleftrightarrow>
     (let n = (of_char c :: nat)
      in (9 \<le> n \<and> n \<le> 13) \<or> (28 \<le> n \<and> n \<le> 32) \<or> n = 133 \<or> n = 160)"

definition str_strip :: "string \<Rightarrow> string" where
  "str_strip s = rev (dropWhile str_isspace (rev (dropWhile str_isspace s)))"

fun step :: "(string \<Rightarrow> 'e + 'j) \<Rightarrow> event \<Rightarrow> session \<Rightarrow> session" where
  "step loads Page_load s =
     (case read_chain_config (disk s) of
        (Inl e, fs') \<Rightarrow> s\<lparr>disk := fs'\<rparr>
      | (Inr txt, fs') \<Rightarrow> s\<lparr>disk := fs', editor := str_strip txt\<rparr>)"
| "step loads Undo_click s =
     (case read_chain_config (disk s) of
        (Inl e, fs') \<Rightarrow> s\<lparr>disk := fs'\<rparr>
      | (Inr txt, fs') \<Rightarrow> s\<lparr>disk := fs', editor := str_strip txt\<rparr>)"
| "step loads Reset_click s = s\<lparr>editor := str_strip (reset_demo s)\<rparr>"
| "step loads Save_click s = s\<lparr>disk := snd (save_chain_config loads (editor s) (disk s))\<rparr>"
| "step loads (Editor_input txt) s = s\<lparr>editor := txt\<rparr>"

fun run :: "(string \<Rightarrow> 'e + 'j) \<Rightarrow> event list \<Rightarrow> session \<Rightarrow> session" where
  "run loads [] s = s"
| "run loads (ev # evs) s = run loads evs (step loads ev s)"

subsection \<open>The podcast request dispatcher\<close>

text \<open>
  An upload widget hands the handler nothing, one path, or a list of paths.
\<close>

datatype upload = No_file | File_path string | File_paths "string list"

text \<open>
  \<^verbatim>\<open>if isinstance(target, str): target = [target]\<close>, and the same for the context.
\<close>

fun as_list :: "upload \<Rightarrow> upload" where
  "as_list (File_path p) = File_paths [p]"
| "as_list No_file = No_file"
| "as_list (File_paths ps) = File_paths ps"

text \<open>
  The calls into \<^verbatim>\<open>frontend.utils.email_demo\<close>, with the arguments in the order of the
  source: \<^verbatim>\<open>test_api(base_url, target, context, email, monologue, vdb)\<close> and
  \<^verbatim>\<open>send_file_via_email(path, sender, recipient)\<close>.
\<close>

datatype call =
    Test_api string upload upload "string list" bool bool
  | Send_file_via_email string string string

fun is_email :: "call \<Rightarrow> bool" where
  "is_email (Send_file_via_email path sender recipient) = True"
| "is_email (Test_api base_url target ctx email monologue vdb) = False"

fun monologue_flag :: "call \<Rightarrow> bool option" where
  "monologue_flag (Test_api base_url target ctx email monologue vdb) = Some monologue"
| "monologue_flag (Send_file_via_email path sender recipient) = None"

fun vdb_flag :: "call \<Rightarrow> bool option" where
  "vdb_flag (Test_api base_url target ctx email monologue vdb) = Some vdb"
| "vdb_flag (Send_file_via_email path sender recipient) = None"

text \<open>
  \<^verbatim>\<open>gr.update(value=..., visible=True)\<close>
\<close>

datatype update = Update string bool

text \<open>
  \<^verbatim>\<open>s.split(sep)\<close> for a separator of one character.
\<close>

fun str_split :: "char \<Rightarrow> string \<Rightarrow> string list" where
  "str_split sep [] = [[]]"
| "str_split sep (c # cs) =
     (if c = sep then [] # str_split sep cs
      else (c # hd (str_split sep cs)) # tl (str_split sep cs))"

text \<open>
  \<^verbatim>\<open>def generate_podcast(target, context, sender, recipient, settings)\<close>.  Beside
  the arguments of the handler the model takes what the handler gets from its
  surroundings: \<open>raises\<close> tells for each call of a collaborator whether it raises (and
  what message) or returns, \<open>environ\<close> is \<^verbatim>\<open>os.environ\<close>, and \<open>fresh\<close> is the text of
  the identifier that \<^verbatim>\<open>uuid.uuid4()\<close> draws.  The result is what the handler returned
  or raised, and the calls of collaborators it made, in order.
\<close>

definition generate_podcast ::
  "(call \<Rightarrow> string option) \<Rightarrow> (string \<rightharpoonup> string) \<Rightarrow> string \<Rightarrow>
   upload \<Rightarrow> upload \<Rightarrow> string \<Rightarrow> string \<Rightarrow> string list \<Rightarrow>
   (dispatch_error + update) \<times> call list" where
  "generate_podcast raises environ fresh target ctx sender recipient settings =
     (let target = as_list target;
          ctx = as_list ctx
      in case environ ''API_SERVICE_URL'' of
           None \<Rightarrow> (Inl (KeyError ''API_SERVICE_URL''), [])
         | Some base_url \<Rightarrow>
             let monologue = (if ''Monologue Only'' \<in> set settings then True else False);
                 vdb = False;
                 filename = fresh;
                 email = (if 0 < length recipient \<and> ''SENDER_EMAIL_PASSWORD'' \<in> dom environ
                          then [recipient] else [filename @ ''@'']);
                 api = Test_api base_url target ctx email monologue vdb
             in case raises api of
                  Some msg \<Rightarrow> (Inl (Raised msg), [api])
                | None \<Rightarrow>
                    if 0 < length recipient \<and> ''SENDER_EMAIL_PASSWORD'' \<in> dom environ
                    then
                      let send = Send_file_via_email
                            (''/project/frontend/demo_outputs/''
                               @ hd (str_split CHR ''@'' recipient) @ ''-output.mp3'')
                            sender recipient
                      in case raises send of
                           Some msg \<Rightarrow> (Inl (Raised msg), [api, send])
                         | None \<Rightarrow>
                             (Inr (Update (''/project/frontend/demo_outputs/''
                                     @ hd (str_split CHR ''@'' recipient) @ ''-output.mp3'') True),
                              [api, send])
                    else
                      (Inr (Update (''/project/frontend/demo_outputs/''
                              @ filename @ ''-output.mp3'') True),
                       [api]))"

section \<open>Properties\<close>

subsection \<open>Reading and writing text\<close>

lemma universal_newlines_no_cr: "CHR 0x0D \<notin> set (universal_newlines s)"
  by (induction s rule: universal_newlines.induct) auto

lemma universal_newlines_id: "CHR 0x0D \<notin> set s \<Longrightarrow> universal_newlines s = s"
  by (induction s rule: universal_newlines.induct) auto

lemma universal_newlines_fixed: "universal_newlines s = s \<longleftrightarrow> CHR 0x0D \<notin> set s"
  using universal_newlines_no_cr [of s] universal_newlines_id [of s] by auto

lemma files_write_text: "files (write_text path txt fs) = (files fs)(path \<mapsto> txt)"
  by (simp add: write_text_def write_str_def open_w_def)

lemma io_log_write_text: "io_log (write_text path txt fs) = io_log fs @ [Open_w path]"
  by (simp add: write_text_def write_str_def open_w_def)

lemma files_read_text: "files (snd (read_text path fs)) = files fs"
  by (simp add: read_text_def Let_def split: option.split)

lemma io_log_read_text: "io_log (snd (read_text path fs)) = io_log fs @ [Open_r path]"
  by (simp add: read_text_def Let_def split: option.split)

lemma read_text_effect:
  "read_text path fs = (r, fs') \<Longrightarrow> fs' = fs\<lparr>io_log := io_log fs @ [Open_r path]\<rparr>"
  by (auto simp: read_text_def Let_def split: option.splits)

subsection \<open>Saving\<close>

text \<open>
  C1.  A text that the decoder refuses is not saved: \<^verbatim>\<open>save_chain_config\<close> raises the
  \<open>SyntaxError\<close> that carries the decoder's exception, and the file system after the call
  is the file system before it (no file is opened).  Moreover the handler raises exactly
  when the decoder does.
\<close>

theorem save_rejects_invalid_json:
  "(loads config_txt = Inl err \<longrightarrow>
      save_chain_config loads config_txt fs =
        (Inl (SyntaxError (''Error validating JSON syntax:'' @ [CHR 0x0A]) err), fs))
   \<and> (isl (fst (save_chain_config loads config_txt fs)) \<longleftrightarrow> isl (loads config_txt))"
  by (cases "loads config_txt") (simp_all add: save_chain_config_def)

theorem save_rejects_invalid_json_witness:
  "json_loads ''{oops'' = Inl JSONDecodeError
   \<and> save_chain_config json_loads ''{oops''
        \<lparr>files = [models_json \<mapsto> ''{}''], io_log = []\<rparr> =
      (Inl (SyntaxError (''Error validating JSON syntax:'' @ [CHR 0x0A]) JSONDecodeError),
       \<lparr>files = [models_json \<mapsto> ''{}''], io_log = []\<rparr>)
   \<and> isl (fst (save_chain_config json_loads ''{oops''
        \<lparr>files = [models_json \<mapsto> ''{}''], io_log = []\<rparr>))"
proof -
  have refused: "json_loads ''{oops'' = Inl JSONDecodeError"
    by code_simp
  from refused save_rejects_invalid_json
         [of json_loads "''{oops''" JSONDecodeError
             "\<lparr>files = [models_json \<mapsto> ''{}''], io_log = []\<rparr>"]
  show ?thesis by simp
qed

text \<open>
  C2 (as amended).  A text that the decoder accepts is written to the configuration file
  as it is, every other file being left alone.  A load right after the save returns the
  text with universal newlines applied; it returns the saved text itself exactly when the
  text holds no carriage return.
\<close>

theorem save_then_load:
  "loads config_txt = Inr v \<Longrightarrow>
     fst (save_chain_config loads config_txt fs) = Inr ()
   \<and> files (snd (save_chain_config loads config_txt fs)) = (files fs)(models_json \<mapsto> config_txt)
   \<and> fst (read_chain_config (snd (save_chain_config loads config_txt fs))) =
        Inr (universal_newlines config_txt)
   \<and> (fst (read_chain_config (snd (save_chain_config loads config_txt fs))) = Inr config_txt
        \<longleftrightarrow> CHR 0x0D \<notin> set config_txt)"
  by (simp add: save_chain_config_def read_chain_config_def read_text_def Let_def
        files_write_text universal_newlines_fixed)

theorem save_then_load_witness:
  "json_loads ''[1,\<newline> true]'' = Inr ()
   \<and> files (snd (save_chain_config json_loads ''[1,\<newline> true]''
        \<lparr>files = [models_json \<mapsto> ''{}''], io_log = []\<rparr>)) models_json = Some ''[1,\<newline> true]''
   \<and> fst (read_chain_config (snd (save_chain_config json_loads ''[1,\<newline> true]''
        \<lparr>files = [models_json \<mapsto> ''{}''], io_log = []\<rparr>))) = Inr ''[1,\<newline> true]''"
proof -
  have accepted: "json_loads ''[1,\<newline> true]'' = Inr ()"
    by code_simp
  have no_cr: "CHR 0x0D \<notin> set ''[1,\<newline> true]''"
    by simp
  from accepted no_cr
    save_then_load [of json_loads "''[1,\<newline> true]''" "()"
      "\<lparr>files = [models_json \<mapsto> ''{}''], io_log = []\<rparr>"]
  show ?thesis by simp
qed

text \<open>
  The round trip as the specification states it fails on a valid text that ends its line
  with a carriage return and a line feed: the decoder accepts it (both characters are
  JSON white space), the file receives both characters, and the load delivers the line
  feed only.
\<close>

theorem save_then_load_counterexample:
  "json_loads (''{}'' @ [CHR 0x0D, CHR 0x0A]) = Inr ()
   \<and> fst (read_chain_config (snd (save_chain_config json_loads (''{}'' @ [CHR 0x0D, CHR 0x0A])
        \<lparr>files = [models_json \<mapsto> ''{}''], io_log = []\<rparr>))) = Inr ''{}\<newline>''
   \<and> ''{}\<newline>'' \<noteq> ''{}'' @ [CHR 0x0D, CHR 0x0A]"
proof -
  have accepted: "json_loads (''{}'' @ [CHR 0x0D, CHR 0x0A]) = Inr ()"
    by code_simp
  then show ?thesis
    by (simp add: save_chain_config_def read_chain_config_def read_text_def Let_def
          files_write_text)
qed

subsection \<open>Sessions of the editor\<close>

lemma step_STARTING_CONFIG: "STARTING_CONFIG (step loads ev s) = STARTING_CONFIG s"
  by (cases ev) (simp_all split: prod.split sum.split)

lemma run_STARTING_CONFIG: "STARTING_CONFIG (run loads evs s) = STARTING_CONFIG s"
  by (induction evs arbitrary: s) (simp_all add: step_STARTING_CONFIG)

lemma step_files:
  "ev \<noteq> Save_click \<Longrightarrow> files (disk (step loads ev s)) = files (disk s)"
  by (cases ev)
     (auto simp: read_chain_config_def split: prod.splits sum.splits dest: read_text_effect)

lemma run_files:
  "Save_click \<notin> set evs \<Longrightarrow> files (disk (run loads evs s)) = files (disk s)"
  by (induction evs arbitrary: s) (auto simp: step_files)

lemma step_read_log:
  "io_log (disk (step loads Page_load s)) = io_log (disk s) @ [Open_r models_json]"
  "io_log (disk (step loads Undo_click s)) = io_log (disk s) @ [Open_r models_json]"
  by (auto simp: read_chain_config_def split: prod.splits sum.splits dest: read_text_effect)

text \<open>
  C4.  After the module has started, and after any sequence of page loads, edits, saves,
  undos and resets, \<^verbatim>\<open>reset_demo\<close> returns the text that the start read from the
  configuration file, and the reset click leaves the file system, with its log of opened
  files, as it was before the click: the file is not read again.
\<close>

theorem reset_returns_startup_snapshot:
  "startup environ fs0 = Inr s0 \<Longrightarrow>
     fst (read_chain_config fs0) = Inr (STARTING_CONFIG s0)
   \<and> reset_demo (run loads evs s0) = STARTING_CONFIG s0
   \<and> disk (step loads Reset_click (run loads evs s0)) = disk (run loads evs s0)"
  by (auto simp: startup_def read_chain_config_def reset_demo_def run_STARTING_CONFIG
        split: prod.splits sum.splits)

theorem reset_returns_startup_snapshot_witness:
  "startup Map.empty \<lparr>files = [models_json \<mapsto> ''{}''], io_log = []\<rparr> =
     Inr \<lparr>STARTING_CONFIG = ''{}'', root_path = None,
          disk = \<lparr>files = [models_json \<mapsto> ''{}''], io_log = [Open_r models_json]\<rparr>,
          editor = []\<rparr>
   \<and> files (disk (run json_loads [Page_load, Editor_input ''[1]'', Save_click, Undo_click]
        \<lparr>STARTING_CONFIG = ''{}'', root_path = None,
          disk = \<lparr>files = [models_json \<mapsto> ''{}''], io_log = [Open_r models_json]\<rparr>,
          editor = []\<rparr>)) models_json = Some ''[1]''
   \<and> reset_demo (run json_loads [Page_load, Editor_input ''[1]'', Save_click, Undo_click]
        \<lparr>STARTING_CONFIG = ''{}'', root_path = None,
          disk = \<lparr>files = [models_json \<mapsto> ''{}''], io_log = [Open_r models_json]\<rparr>,
          editor = []\<rparr>) = ''{}''"
proof -
  have started:
    "startup Map.empty \<lparr>files = [models_json \<mapsto> ''{}''], io_log = []\<rparr> =
       Inr \<lparr>STARTING_CONFIG = ''{}'', root_path = None,
            disk = \<lparr>files = [models_json \<mapsto> ''{}''], io_log = [Open_r models_json]\<rparr>,
            editor = []\<rparr>"
    by (simp add: startup_def read_text_def)
  have accepted: "json_loads ''[1]'' = Inr ()"
    by code_simp
  have saved:
    "files (disk (run json_loads [Page_load, Editor_input ''[1]'', Save_click, Undo_click]
        \<lparr>STARTING_CONFIG = ''{}'', root_path = None,
          disk = \<lparr>files = [models_json \<mapsto> ''{}''], io_log = [Open_r models_json]\<rparr>,
          editor = []\<rparr>)) models_json = Some ''[1]''"
    using accepted
    by (simp add: read_chain_config_def read_text_def save_chain_config_def files_write_text)
  from started saved
    reset_returns_startup_snapshot [OF started,
      of json_loads "[Page_load, Editor_input ''[1]'', Save_click, Undo_click]"]
  show ?thesis by simp
qed

text \<open>
  C5 (as amended).  The undo click and the page load are bound to the same function of
  the file system, \<^verbatim>\<open>read_chain_config\<close>, and have the same effect on every session.
  What the editor held does not matter.  When the configuration file exists, the function
  returns the stored text with universal newlines applied, which is the stored text itself
  exactly when that holds no carriage return; and the session after the click is the same
  whatever unsaved text the editor held.
\<close>

theorem undo_is_load:
  "step loads Undo_click s = step loads Page_load s
   \<and> read_chain_config (disk (s\<lparr>editor := unsaved\<rparr>)) = read_chain_config (disk s)
   \<and> (files (disk s) models_json = Some stored \<longrightarrow>
        fst (read_chain_config (disk s)) = Inr (universal_newlines stored)
      \<and> (fst (read_chain_config (disk s)) = Inr stored \<longleftrightarrow> CHR 0x0D \<notin> set stored)
      \<and> step loads Undo_click (s\<lparr>editor := unsaved\<rparr>) = step loads Undo_click s)"
  by (simp add: read_chain_config_def read_text_def Let_def universal_newlines_fixed
        split: option.split)

theorem undo_is_load_witness:
  "files (disk \<lparr>STARTING_CONFIG = ''{}'', root_path = None,
       disk = \<lparr>files = [models_json \<mapsto> ''[1]''], io_log = []\<rparr>, editor = ''[1]''\<rparr>) models_json
     = Some ''[1]''
   \<and> CHR 0x0D \<notin> set ''[1]''
   \<and> fst (read_chain_config (disk \<lparr>STARTING_CONFIG = ''{}'', root_path = None,
       disk = \<lparr>files = [models_json \<mapsto> ''[1]''], io_log = []\<rparr>, editor = ''[1]''\<rparr>))
     = Inr ''[1]''
   \<and> step json_loads Undo_click
       (\<lparr>STARTING_CONFIG = ''{}'', root_path = None,
         disk = \<lparr>files = [models_json \<mapsto> ''[1]''], io_log = []\<rparr>, editor = ''[1]''\<rparr>
        \<lparr>editor := ''[1, 2''\<rparr>)
     = step json_loads Undo_click
       \<lparr>STARTING_CONFIG = ''{}'', root_path = None,
         disk = \<lparr>files = [models_json \<mapsto> ''[1]''], io_log = []\<rparr>, editor = ''[1]''\<rparr>"
proof -
  have stored: "files (disk \<lparr>STARTING_CONFIG = ''{}'', root_path = None,
       disk = \<lparr>files = [models_json \<mapsto> ''[1]''], io_log = []\<rparr>, editor = ''[1]''\<rparr>) models_json
     = Some ''[1]''"
    by simp
  have no_cr: "CHR 0x0D \<notin> set ''[1]''"
    by simp
  from stored no_cr
    undo_is_load [of json_loads
      "\<lparr>STARTING_CONFIG = ''{}'', root_path = None,
         disk = \<lparr>files = [models_json \<mapsto> ''[1]''], io_log = []\<rparr>, editor = ''[1]''\<rparr>"
      "''[1, 2''" "''[1]''"]
  show ?thesis
    by blast
qed

text \<open>
  As the specification states it, undo returning exactly what is on the disk, the claim
  fails on a configuration file that ends its line with a carriage return and a line
  feed: the function returns the line feed only.
\<close>

theorem undo_is_load_counterexample:
  "files (disk \<lparr>STARTING_CONFIG = ''{}'', root_path = None,
       disk = \<lparr>files = [models_json \<mapsto> ''{}'' @ [CHR 0x0D, CHR 0x0A]], io_log = []\<rparr>,
       editor = []\<rparr>) models_json
     = Some (''{}'' @ [CHR 0x0D, CHR 0x0A])
   \<and> fst (read_chain_config (disk \<lparr>STARTING_CONFIG = ''{}'', root_path = None,
       disk = \<lparr>files = [models_json \<mapsto> ''{}'' @ [CHR 0x0D, CHR 0x0A]], io_log = []\<rparr>,
       editor = []\<rparr>))
     = Inr ''{}\<newline>''
   \<and> ''{}\<newline>'' \<noteq> ''{}'' @ [CHR 0x0D, CHR 0x0A]"
  by (simp add: read_chain_config_def read_text_def)

text \<open>
  C9.  No event of the editor other than the save click changes the stored files, one at
  a time or in sequence.  The page load and the undo click open the configuration file
  for reading once and leave the files as they were; the reset click does not touch the
  file system at all.
\<close>

theorem only_save_writes:
  "(ev \<noteq> Save_click \<longrightarrow> files (disk (step loads ev s)) = files (disk s))
   \<and> (Save_click \<notin> set evs \<longrightarrow> files (disk (run loads evs s)) = files (disk s))
   \<and> files (snd (read_chain_config fs)) = files fs
   \<and> io_log (disk (step loads Page_load s)) = io_log (disk s) @ [Open_r models_json]
   \<and> io_log (disk (step loads Undo_click s)) = io_log (disk s) @ [Open_r models_json]
   \<and> disk (step loads Reset_click s) = disk s"
proof (intro conjI impI)
  show "disk (step loads Reset_click s) = disk s"
    by simp
  show "files (snd (read_chain_config fs)) = files fs"
    by (simp add: read_chain_config_def files_read_text)
qed (simp_all only: step_files run_files step_read_log not_False_eq_True)

theorem only_save_writes_witness:
  "Editor_input ''[1]'' \<noteq> Save_click
   \<and> Save_click \<notin> set [Page_load, Editor_input ''[1]'', Undo_click, Reset_click]
   \<and> files (disk (run json_loads [Page_load, Editor_input ''[1]'', Undo_click, Reset_click]
        \<lparr>STARTING_CONFIG = ''{}'', root_path = None,
          disk = \<lparr>files = [models_json \<mapsto> ''[0]''], io_log = []\<rparr>, editor = []\<rparr>))
      = [models_json \<mapsto> ''[0]'']
   \<and> files (disk (step json_loads (Editor_input ''[1]'')
        \<lparr>STARTING_CONFIG = ''{}'', root_path = None,
          disk = \<lparr>files = [models_json \<mapsto> ''[0]''], io_log = []\<rparr>, editor = []\<rparr>))
      = [models_json \<mapsto> ''[0]'']"
  using only_save_writes [of "Editor_input ''[1]''" json_loads
      "\<lparr>STARTING_CONFIG = ''{}'', root_path = None,
         disk = \<lparr>files = [models_json \<mapsto> ''[0]''], io_log = []\<rparr>, editor = []\<rparr>"
      "[Page_load, Editor_input ''[1]'', Undo_click, Reset_click]"]
  by simp

subsection \<open>The dispatcher\<close>

lemma conditional_bool: "(if b then True else False) = b"
  by simp

text \<open>
  A split never gives the empty list, so that taking its first piece, as the handler does
  with index 0, cannot fail; the first piece is the text before the first separator.
\<close>

lemma str_split_nonempty: "str_split sep s \<noteq> []"
  by (induction s) simp_all





text \<open>
  C6.  Every request that a dispatch sends to the pipeline has its monologue flag set
  exactly when \<^verbatim>\<open>"Monologue Only"\<close> is among the selected settings, and its vector
  database flag unset; and when \<^verbatim>\<open>API_SERVICE_URL\<close> is set, the first call of the
  dispatch is such a request.
\<close>

theorem request_flags:
  "(\<forall>c \<in> set (snd (generate_podcast raises environ fresh target ctx sender recipient settings)).
      \<not> is_email c \<longrightarrow>
        monologue_flag c = Some (''Monologue Only'' \<in> set settings) \<and> vdb_flag c = Some False)
   \<and> (environ ''API_SERVICE_URL'' \<noteq> None \<longrightarrow>
        map monologue_flag
          (take 1 (snd (generate_podcast raises environ fresh target ctx sender recipient settings)))
          = [Some (''Monologue Only'' \<in> set settings)]
      \<and> map vdb_flag
          (take 1 (snd (generate_podcast raises environ fresh target ctx sender recipient settings)))
          = [Some False])"
proof (cases "environ ''API_SERVICE_URL''")
  case None
  then show ?thesis
    by (simp add: generate_podcast_def)
next
  case (Some base_url)
  then show ?thesis
    unfolding generate_podcast_def Let_def conditional_bool
    by (simp split: option.split)
qed

theorem request_flags_witness:
  "[''API_SERVICE_URL'' \<mapsto> ''http://api:8002''] ''API_SERVICE_URL'' \<noteq> None
   \<and> map monologue_flag (take 1 (snd (generate_podcast (\<lambda>c. None)
        [''API_SERVICE_URL'' \<mapsto> ''http://api:8002''] ''1b4e28ba''
        (File_path ''paper.pdf'') No_file [] [] [''Monologue Only''])))
      = [Some True]
   \<and> map monologue_flag (take 1 (snd (generate_podcast (\<lambda>c. None)
        [''API_SERVICE_URL'' \<mapsto> ''http://api:8002''] ''1b4e28ba''
        (File_path ''paper.pdf'') No_file [] [] [])))
      = [Some False]
   \<and> map vdb_flag (take 1 (snd (generate_podcast (\<lambda>c. None)
        [''API_SERVICE_URL'' \<mapsto> ''http://api:8002''] ''1b4e28ba''
        (File_path ''paper.pdf'') No_file [] [] [''Monologue Only'', ''Vector Database''])))
      = [Some False]"
  using
    request_flags [of "\<lambda>c. None" "[''API_SERVICE_URL'' \<mapsto> ''http://api:8002'']" "''1b4e28ba''"
      "File_path ''paper.pdf''" No_file "[]" "[]" "[''Monologue Only'']"]
    request_flags [of "\<lambda>c. None" "[''API_SERVICE_URL'' \<mapsto> ''http://api:8002'']" "''1b4e28ba''"
      "File_path ''paper.pdf''" No_file "[]" "[]" "[]"]
    request_flags [of "\<lambda>c. None" "[''API_SERVICE_URL'' \<mapsto> ''http://api:8002'']" "''1b4e28ba''"
      "File_path ''paper.pdf''" No_file "[]" "[]" "[''Monologue Only'', ''Vector Database'']"]
  by simp

text \<open>
  C7.  Without \<^verbatim>\<open>API_SERVICE_URL\<close> in the environment every call of the handler
  raises \<open>KeyError\<close> and calls no collaborator.  The start of the module does not look
  at the variable: with it missing, the start fails exactly when the configuration file
  is missing.
\<close>

theorem missing_base_url_is_fatal:
  "environ ''API_SERVICE_URL'' = None \<Longrightarrow>
     generate_podcast raises environ fresh target ctx sender recipient settings =
       (Inl (KeyError ''API_SERVICE_URL''), [])
   \<and> (isl (startup environ fs0) \<longleftrightarrow> files fs0 models_json = None)"
  by (simp add: generate_podcast_def startup_def read_text_def Let_def split: option.split)

theorem missing_base_url_is_fatal_witness:
  "[''SENDER_EMAIL_PASSWORD'' \<mapsto> ''pw''] ''API_SERVICE_URL'' = None
   \<and> generate_podcast (\<lambda>c. None) [''SENDER_EMAIL_PASSWORD'' \<mapsto> ''pw''] ''1b4e28ba''
        (File_path ''paper.pdf'') No_file [] ''bob@example.com'' []
      = (Inl (KeyError ''API_SERVICE_URL''), [])
   \<and> \<not> isl (startup [''SENDER_EMAIL_PASSWORD'' \<mapsto> ''pw'']
        \<lparr>files = [models_json \<mapsto> ''{}''], io_log = []\<rparr>)"
  using missing_base_url_is_fatal
    [of "[''SENDER_EMAIL_PASSWORD'' \<mapsto> ''pw'']" "\<lambda>c. None" "''1b4e28ba''"
        "File_path ''paper.pdf''" No_file "[]" "''bob@example.com''" "[]"
        "\<lparr>files = [models_json \<mapsto> ''{}''], io_log = []\<rparr>"]
  by simp

text \<open>
  C8.  A single uploaded path and the list holding just that path give the same result
  and the same calls of collaborators, for the target and for the context: the handler
  first turns the single path into that list.
\<close>

theorem single_upload_as_list:
  "generate_podcast raises environ fresh (File_path p) ctx sender recipient settings =
     generate_podcast raises environ fresh (File_paths [p]) ctx sender recipient settings
   \<and> generate_podcast raises environ fresh target (File_path p) sender recipient settings =
     generate_podcast raises environ fresh target (File_paths [p]) sender recipient settings
   \<and> as_list (File_path p) = File_paths [p]"
  by (simp add: generate_podcast_def)




end
